theory Spec2Isabelle
  imports Complex_Main
begin

section \<open>The TCG Live analyze handler\<close>

text \<open>
  Source: \<^verbatim>\<open>backend/internal/httpapi/tcglive_handlers.go\<close>. The handler reads a JSON
  request body, validates it and answers with a status code and one JSON value.
\<close>

record AnalyzeTCGLiveRequest =
  GameExport :: string
  IsPrivate :: bool

record AnalyzeTCGLiveResponse =
  Status :: string
  Data :: string

record ErrorResponse =
  Error :: string
  Code :: string

text \<open>What the handler can encode into the response body: an error value or a success value.\<close>

datatype payload = ErrorPayload ErrorResponse | SuccessPayload AnalyzeTCGLiveResponse

text \<open>
  The response writer after the handler has run: the headers set, the status code
  written, the values encoded into the body, and the lines sent to the logger.
\<close>

record response =
  headers :: "(string \<times> string) list"
  statusCode :: nat
  body :: "payload list"
  logged :: "string list"

definition StatusBadRequest :: nat where
  "StatusBadRequest = 400"

definition StatusNotImplemented :: nat where
  "StatusNotImplemented = 501"

text \<open>
  \<^verbatim>\<open>json.NewDecoder(r.Body).Decode(&req)\<close> belongs to the standard library; it is a
  parameter \<open>decode\<close> here, returning the error text (\<open>Inl\<close>) or the decoded request.
\<close>

definition handleAnalyzeTCGLive ::
  "(string \<Rightarrow> string + AnalyzeTCGLiveRequest) \<Rightarrow> string \<Rightarrow> response" where
  "handleAnalyzeTCGLive decode reqBody =
     (let hs = [(''Content-Type'', ''application/json'')] in
      case decode reqBody of
        Inl err \<Rightarrow>
          \<lparr>headers = hs, statusCode = StatusBadRequest,
           body = [ErrorPayload \<lparr>Error = ''Invalid request body'', Code = ''INVALID_REQUEST''\<rparr>],
           logged = [''Failed to decode request body: '' @ err]\<rparr>
      | Inr req \<Rightarrow>
          if GameExport req = ''''
          then \<lparr>headers = hs, statusCode = StatusBadRequest,
                body = [ErrorPayload \<lparr>Error = ''gameExport is required'', Code = ''INVALID_REQUEST''\<rparr>],
                logged = []\<rparr>
          else \<lparr>headers = hs, statusCode = StatusNotImplemented,
                body = [ErrorPayload \<lparr>Error = ''TCG Live analysis is planned for a future release'',
                                      Code = ''NOT_IMPLEMENTED''\<rparr>],
                logged = []\<rparr>)"

text \<open>The request is rejected as invalid: the body does not decode, or \<open>gameExport\<close> is empty.\<close>

definition invalid_request :: "(string \<Rightarrow> string + AnalyzeTCGLiveRequest) \<Rightarrow> string \<Rightarrow> bool" where
  "invalid_request decode reqBody =
     (case decode reqBody of Inl err \<Rightarrow> True | Inr req \<Rightarrow> GameExport req = '''')"

fun error_code :: "payload \<Rightarrow> string option" where
  "error_code (ErrorPayload e) = Some (Code e)"
| "error_code (SuccessPayload r) = None"

text \<open>A toy decoder for concrete runs: the body itself is the \<open>gameExport\<close> text, and a body
  starting with \<open>{\<close> that is not closed fails to decode.\<close>

definition sample_decode :: "string \<Rightarrow> string + AnalyzeTCGLiveRequest" where
  "sample_decode b = (if b = ''{'' then Inl ''unexpected EOF''
                      else Inr \<lparr>GameExport = b, IsPrivate = False\<rparr>)"

section \<open>The Showdown battle log parser\<close>

text \<open>
  The parser (\<^verbatim>\<open>ParseShowdownLog\<close> of the analysis package) is called by the tests
  of the repository, but its file is not among the sources. Every definition of this
  section is modelled from the specification, whose sections are cited.
\<close>

subsection \<open>Data model\<close>

text \<open>
  Modelled from the spec: the Move reference carried by a Move action (section 3): identifier
  and display name. The parser's type declarations are not among the sources; the field names
  follow the parser's tests.
\<close>

record MoveRef =
  MoveID :: string
  MoveName :: string

text \<open>
  Modelled from the spec: an Action (section 3): acting player designator, action-type tag,
  the Move reference of a Move action, the combatant a Switch action brings in, and the
  outcome notes that modifier lines attach to the most recently recorded action (section 4.2).
\<close>

record Action =
  Player :: string
  ActionType :: string
  Move :: "MoveRef option"
  SwitchTo :: string
  Outcome :: "string list"

text \<open>Modelled from the spec: a Turn (section 3): turn number and ordered actions.\<close>

record Turn =
  TurnNumber :: nat
  Actions :: "Action list"

text \<open>
  Modelled from the spec: a KeyMoment (section 3): the turn it occurred on, moment type,
  description, significance.
\<close>

record KeyMoment =
  MomentTurn :: nat
  Type :: string
  Description :: string
  Significance :: string

text \<open>Modelled from the spec: a Player (section 3): display name and loss count.\<close>

record PlayerInfo =
  Name :: string
  Losses :: nat

text \<open>
  Modelled from the spec: the per-player damage-dealt, damage-taken and healing-done totals of
  Stats (section 3). The spec's floating-point totals are real numbers here.
\<close>

record PlayerTotals =
  DamageDealt :: real
  DamageTaken :: real
  HealingDone :: real

text \<open>
  Modelled from the spec: Stats (section 3): total turn count, move-usage counts by move
  identifier, switch and effectiveness counts, per-player totals and the two derived averages.
\<close>

record BattleStats =
  TotalTurns :: nat
  MoveFrequency :: "string \<rightharpoonup> nat"
  SwitchCount :: nat
  SuperEffective :: nat
  NotVeryEffective :: nat
  CriticalHits :: nat
  Player1Totals :: PlayerTotals
  Player2Totals :: PlayerTotals
  AvgDamagePerTurn :: real
  AvgHealPerTurn :: real

text \<open>Modelled from the spec: the BattleSummary (section 3), the root value a parse returns.\<close>

record BattleSummary =
  ID :: string
  Format :: string
  Player1 :: PlayerInfo
  Player2 :: PlayerInfo
  Turns :: "Turn list"
  Winner :: string
  Stats :: BattleStats
  KeyMoments :: "KeyMoment list"

text \<open>
  Modelled from the spec: the error half of the parser's result (section 6): the only error
  the spec reserves is an input-size ceiling, which section 4.6 leaves unused (the call never
  fails).
\<close>

datatype parse_error = InputTooLarge

subsection \<open>Line tokenizer\<close>

text \<open>
  Modelled from the spec: one tokenized line (section 4.1): its pipe-delimited fields, the
  message-type tag first.
\<close>

type_synonym event = "string list"

text \<open>
  Modelled from the spec: splitting a text at every occurrence of one delimiter character
  (section 4.1), keeping empty fields.
\<close>

fun split_on :: "char \<Rightarrow> string \<Rightarrow> string list" where
  "split_on c [] = [[]]"
| "split_on c (x # xs) =
     (if x = c then [] # split_on c xs
      else (case split_on c xs of [] \<Rightarrow> [[x]] | w # ws \<Rightarrow> (x # w) # ws))"

text \<open>Modelled from the spec: the white space a line is trimmed of (section 4.1).\<close>

definition is_space :: "char \<Rightarrow> bool" where
  "is_space c = (c = CHR '' '' \<or> c = CHR 0x09 \<or> c = CHR 0x0A \<or> c = CHR 0x0B \<or>
                 c = CHR 0x0C \<or> c = CHR 0x0D)"

text \<open>Modelled from the spec: trimming a line at both ends (section 4.1).\<close>

definition trim :: "string \<Rightarrow> string" where
  "trim s = rev (dropWhile is_space (rev (dropWhile is_space s)))"

text \<open>Modelled from the spec: a well-formed line begins with the field delimiter (section 4.1).\<close>

definition has_delimiter :: "string \<Rightarrow> bool" where
  "has_delimiter l = (case l of [] \<Rightarrow> False | c # cs \<Rightarrow> c = CHR ''|'')"

text \<open>Modelled from the spec: the raw text as its trimmed lines (section 4.1).\<close>

definition log_lines :: "string \<Rightarrow> string list" where
  "log_lines raw = map trim (split_on (CHR 0x0A) raw)"

text \<open>
  Modelled from the spec: the Line Tokenizer (section 4.1): lines that are empty or do not
  begin with the delimiter are skipped; the others are split at the delimiter and lose the
  leading empty field.
\<close>

definition tokenize :: "string \<Rightarrow> event list" where
  "tokenize raw = map (\<lambda>l. tl (split_on CHR ''|'' l)) (filter has_delimiter (log_lines raw))"

text \<open>
  Modelled from the spec: the message-type tag, the first field of a tokenized line (section
  4.2).
\<close>

definition tag :: "event \<Rightarrow> string" where
  "tag e = (case e of [] \<Rightarrow> [] | t # fs \<Rightarrow> t)"

text \<open>
  Modelled from the spec: reading a field of a tokenized line; a missing field reads as the
  empty text (section 2: tolerant of missing fields).
\<close>

definition fld :: "event \<Rightarrow> nat \<Rightarrow> string" where
  "fld e i = (if i < length e then e ! i else [])"

subsection \<open>Field readers\<close>

text \<open>
  Modelled from the spec: the value of a decimal digit, for the declared turn number and the
  health fractions (sections 4.2, 4.3).
\<close>

definition digit_val :: "char \<Rightarrow> nat option" where
  "digit_val c = (let k = (of_char c :: nat) in if 48 \<le> k \<and> k \<le> 57 then Some (k - 48) else None)"

text \<open>Modelled from the spec: reading a run of decimal digits (sections 4.2, 4.3).\<close>

fun parse_digits :: "nat \<Rightarrow> string \<Rightarrow> nat option" where
  "parse_digits acc [] = Some acc"
| "parse_digits acc (c # cs) =
     (case digit_val c of None \<Rightarrow> None | Some d \<Rightarrow> parse_digits (10 * acc + d) cs)"

text \<open>
  Modelled from the spec: reading a declared number; an empty or non-numeric field declares
  none (sections 4.2, 4.3).
\<close>

definition parse_nat :: "string \<Rightarrow> nat option" where
  "parse_nat s = (if s = [] then None else parse_digits 0 s)"

text \<open>
  Modelled from the spec: the remaining-health fraction of a switch, damage or heal line
  (sections 2, 4.2), in percent: the first word of the field, either
  \<open>current/maximum\<close> or a plain number (\<open>0 fnt\<close>).
\<close>

definition parse_health :: "string \<Rightarrow> real option" where
  "parse_health s =
     (case split_on CHR ''/'' (takeWhile (\<lambda>c. \<not> is_space c) s) of
        [a] \<Rightarrow> map_option real (parse_nat a)
      | [a, b] \<Rightarrow>
          (case parse_nat a of
             None \<Rightarrow> None
           | Some n \<Rightarrow>
               (case parse_nat b of
                  None \<Rightarrow> None
                | Some d \<Rightarrow> if d = 0 then None else Some (100 * real n / real d)))
      | _ \<Rightarrow> None)"

text \<open>
  Modelled from the spec: the player designator of a position token (section 4.2): the two
  fixed slots, or the raw token as a fallback for a slot that is neither.
\<close>

definition player_of :: "string \<Rightarrow> string" where
  "player_of tok = (if take 2 tok = ''p1'' then ''player1''
                    else if take 2 tok = ''p2'' then ''player2'' else tok)"

text \<open>
  Modelled from the spec: the slot part of a position token, before the colon (section 2:
  active combatant per player slot).
\<close>

definition slot_of :: "string \<Rightarrow> string" where
  "slot_of tok = takeWhile (\<lambda>c. c \<noteq> CHR '':'') tok"

text \<open>
  Modelled from the spec: the combatant named after the colon of a position token (section 3:
  a Switch action carries the identifier of the combatant switched in).
\<close>

definition combatant_of :: "string \<Rightarrow> string" where
  "combatant_of tok = trim (drop 1 (dropWhile (\<lambda>c. c \<noteq> CHR '':'') tok))"

text \<open>Modelled from the spec: lower-casing one ASCII letter, for the move identifier (section 3).\<close>

definition lower :: "char \<Rightarrow> char" where
  "lower c = (let k = (of_char c :: nat) in if 65 \<le> k \<and> k \<le> 90 then char_of (k + 32) else c)"

text \<open>
  Modelled from the spec: the move identifier, derived from the display name by lower-casing
  it and hyphenating its spaces (section 3).
\<close>

definition move_id :: "string \<Rightarrow> string" where
  "move_id n = map (\<lambda>c. if c = CHR '' '' then CHR ''-'' else lower c) n"

text \<open>
  Modelled from the spec: the throwaway marker that prefixes join-style name announcements
  (section 6), the star glyph of the parser's test logs in UTF-8.
\<close>

definition star :: string where
  "star = [CHR 0xE2, CHR 0x98, CHR 0x86]"

text \<open>
  Modelled from the spec: stripping the markers that prefix a join-style name announcement
  (section 6).
\<close>

fun strip_markers :: "string \<Rightarrow> string" where
  "strip_markers (a # b # c # rest) =
     (if [a, b, c] = star then strip_markers rest else a # b # c # rest)"
| "strip_markers s = s"

text \<open>
  Modelled from the spec: the decimal rendering of a counter, for the identifier source
  (section 4.6).
\<close>

fun digits :: "nat \<Rightarrow> string" where
  "digits n = (if n < 10 then [char_of (n + 48)]
               else digits (n div 10) @ [char_of (n mod 10 + 48)])"

declare digits.simps [simp del]

text \<open>
  Modelled from the spec: the source of unique identifiers (section 4.6): each call takes the
  next state of a supply that never repeats, so identity is per invocation and not per
  content. The supply is explicit state here.
\<close>

definition new_id :: "nat \<Rightarrow> string \<times> nat" where
  "new_id g = (''battle-'' @ digits g, Suc g)"

subsection \<open>Battle state tracker\<close>

text \<open>
  Modelled from the spec: the Turn/Action Assembler's states (section 4.3): no turn open, or
  turn n open with the actions buffered so far.
\<close>

datatype assembler = NoTurnOpen | TurnOpen nat "Action list"

text \<open>
  Modelled from the spec: the Battle State Tracker (section 2) with the accumulators of the
  Stats Aggregator and the Key Moment Detector: one value owned by one parse.
\<close>

record ParseState =
  format :: string
  name1 :: string
  name2 :: string
  losses1 :: nat
  losses2 :: nat
  winner :: string
  closed :: "Turn list"
  asm :: assembler
  preTurn :: "Action list"
  opened :: nat
  moveFreq :: "string \<rightharpoonup> nat"
  switches :: nat
  superEff :: nat
  notVeryEff :: nat
  crits :: nat
  totals1 :: PlayerTotals
  totals2 :: PlayerTotals
  moments :: "KeyMoment list"
  health :: "string \<rightharpoonup> real"
  active :: "string \<rightharpoonup> string"

text \<open>Modelled from the spec: zero-valued per-player totals (section 4.6).\<close>

definition zero_totals :: PlayerTotals where
  "zero_totals = \<lparr>DamageDealt = 0, DamageTaken = 0, HealingDone = 0\<rparr>"

text \<open>
  Modelled from the spec: the state a parse starts from (sections 3, 4.3, 4.6): empty names,
  no losses, no turn open, zero counters.
\<close>

definition init_state :: ParseState where
  "init_state =
     \<lparr>format = [], name1 = [], name2 = [], losses1 = 0, losses2 = 0, winner = [],
      closed = [], asm = NoTurnOpen, preTurn = [], opened = 0, moveFreq = Map.empty,
      switches = 0, superEff = 0, notVeryEff = 0, crits = 0,
      totals1 = zero_totals, totals2 = zero_totals, moments = [],
      health = Map.empty, active = Map.empty\<rparr>"

text \<open>
  Modelled from the spec: the current turn number of the running turn counter (sections 2,
  4.2); 0 while no turn is open.
\<close>

definition current_turn :: "ParseState \<Rightarrow> nat" where
  "current_turn s = (case asm s of NoTurnOpen \<Rightarrow> 0 | TurnOpen n acts \<Rightarrow> n)"

text \<open>
  Modelled from the spec: recording an action (sections 4.2, 4.3): into the open turn, or into
  the pre-turn-1 buffer while no turn has opened yet.
\<close>

definition record_action :: "Action \<Rightarrow> ParseState \<Rightarrow> ParseState" where
  "record_action a s =
     (case asm s of
        NoTurnOpen \<Rightarrow> s\<lparr>preTurn := preTurn s @ [a]\<rparr>
      | TurnOpen n acts \<Rightarrow> s\<lparr>asm := TurnOpen n (acts @ [a])\<rparr>)"

text \<open>
  Modelled from the spec: attaching an outcome note to the most recently recorded action of a
  list (section 4.2).
\<close>

definition annotate :: "string \<Rightarrow> Action list \<Rightarrow> Action list" where
  "annotate t acts =
     (if acts = [] then []
      else butlast acts @ [(last acts)\<lparr>Outcome := Outcome (last acts) @ [t]\<rparr>])"

text \<open>
  Modelled from the spec: a modifier line updates the implied outcome of the most recently
  recorded action (section 4.2).
\<close>

definition note_outcome :: "string \<Rightarrow> ParseState \<Rightarrow> ParseState" where
  "note_outcome t s =
     (case asm s of
        NoTurnOpen \<Rightarrow> s\<lparr>preTurn := annotate t (preTurn s)\<rparr>
      | TurnOpen n acts \<Rightarrow> s\<lparr>asm := TurnOpen n (annotate t acts)\<rparr>)"

text \<open>
  Modelled from the spec: closing the open turn, if any, and appending it to the turns
  (section 4.3).
\<close>

definition close_turn :: "ParseState \<Rightarrow> ParseState" where
  "close_turn s =
     (case asm s of
        NoTurnOpen \<Rightarrow> s
      | TurnOpen n acts \<Rightarrow>
          s\<lparr>closed := closed s @ [\<lparr>TurnNumber = n, Actions = acts\<rparr>], asm := NoTurnOpen\<rparr>)"

text \<open>
  Modelled from the spec: opening turn N as declared. Section 4.2: the marker \<open>opens
  turn N as declared\<close>; section 4.3: \<open>the parser trusts the declared number but
  must special-case a pre-turn-1 action buffer\<close>; section 4.2: pre-turn switches
  \<open>are attached to turn 1 once it opens\<close>. The opened turn is counted in the total
  turn count.
\<close>

definition open_turn :: "nat \<Rightarrow> ParseState \<Rightarrow> ParseState" where
  "open_turn n s =
     (if n = 1
      then s\<lparr>asm := TurnOpen 1 (preTurn s), preTurn := [], opened := Suc (opened s)\<rparr>
      else s\<lparr>asm := TurnOpen n [], opened := Suc (opened s)\<rparr>)"

text \<open>
  Modelled from the spec: looking a move identifier up in the usage counts; an identifier
  never used counts 0 (section 3).
\<close>

definition frequency :: "(string \<rightharpoonup> nat) \<Rightarrow> string \<Rightarrow> nat" where
  "frequency m k = (case m k of None \<Rightarrow> 0 | Some c \<Rightarrow> c)"

text \<open>Modelled from the spec: counting one more use of a move identifier (section 4.2).\<close>

definition bump :: "(string \<rightharpoonup> nat) \<Rightarrow> string \<Rightarrow> (string \<rightharpoonup> nat)" where
  "bump counts k = counts(k \<mapsto> Suc (frequency counts k))"

text \<open>
  Modelled from the spec: attributing a damage delta to the player whose combatant's health
  changed, as damage taken, and to the other player as damage dealt (sections 4.2, 9).
\<close>

definition credit_damage :: "string \<Rightarrow> real \<Rightarrow> ParseState \<Rightarrow> ParseState" where
  "credit_damage p d s =
     (if p = ''player1''
      then s\<lparr>totals1 := (totals1 s)\<lparr>DamageTaken := DamageTaken (totals1 s) + d\<rparr>,
             totals2 := (totals2 s)\<lparr>DamageDealt := DamageDealt (totals2 s) + d\<rparr>\<rparr>
      else if p = ''player2''
      then s\<lparr>totals2 := (totals2 s)\<lparr>DamageTaken := DamageTaken (totals2 s) + d\<rparr>,
             totals1 := (totals1 s)\<lparr>DamageDealt := DamageDealt (totals1 s) + d\<rparr>\<rparr>
      else s)"

text \<open>
  Modelled from the spec: attributing a heal delta to the player whose combatant's health
  changed (section 4.2).
\<close>

definition credit_heal :: "string \<Rightarrow> real \<Rightarrow> ParseState \<Rightarrow> ParseState" where
  "credit_heal p d s =
     (if p = ''player1''
      then s\<lparr>totals1 := (totals1 s)\<lparr>HealingDone := HealingDone (totals1 s) + d\<rparr>\<rparr>
      else if p = ''player2''
      then s\<lparr>totals2 := (totals2 s)\<lparr>HealingDone := HealingDone (totals2 s) + d\<rparr>\<rparr>
      else s)"

text \<open>
  Modelled from the spec: the most recent remaining-health fraction of a combatant (section
  2); a combatant not seen yet is fully healthy.
\<close>

definition last_health :: "ParseState \<Rightarrow> string \<Rightarrow> real" where
  "last_health s tok = (case health s tok of None \<Rightarrow> 100 | Some h \<Rightarrow> h)"

subsection \<open>Event dispatcher\<close>

text \<open>
  Modelled from the spec: the player-declaration line (section 4.2): binds a slot to a display
  name unless the slot is already bound.
\<close>

definition handle_player :: "ParseState \<Rightarrow> event \<Rightarrow> ParseState" where
  "handle_player s e =
     (if fld e 1 = ''p1'' then (if name1 s = [] then s\<lparr>name1 := fld e 2\<rparr> else s)
      else if fld e 1 = ''p2'' then (if name2 s = [] then s\<lparr>name2 := fld e 2\<rparr> else s)
      else s)"

text \<open>
  Modelled from the spec: the join-announcement line (section 4.2): the announced name,
  stripped of its markers, is bound to the first slot that has no name yet; the first writer
  for a slot wins.
\<close>

definition handle_join :: "ParseState \<Rightarrow> event \<Rightarrow> ParseState" where
  "handle_join s e =
     (if name1 s = [] then s\<lparr>name1 := strip_markers (fld e 1)\<rparr>
      else if name2 s = [] then s\<lparr>name2 := strip_markers (fld e 1)\<rparr>
      else s)"

text \<open>
  Modelled from the spec: the tier/format declaration (section 4.2): the format label is
  captured verbatim.
\<close>

definition handle_tier :: "ParseState \<Rightarrow> event \<Rightarrow> ParseState" where
  "handle_tier s e = s\<lparr>format := fld e 1\<rparr>"

text \<open>
  Modelled from the spec: the turn-boundary marker (sections 4.2, 4.3): closes the open turn,
  if any, and opens turn N as declared.
\<close>

definition handle_turn :: "ParseState \<Rightarrow> event \<Rightarrow> ParseState" where
  "handle_turn s e =
     (case parse_nat (fld e 1) of None \<Rightarrow> s | Some n \<Rightarrow> open_turn n (close_turn s))"

text \<open>Modelled from the spec: the Switch action a switch line records (sections 3, 4.2).\<close>

definition switch_action :: "event \<Rightarrow> Action" where
  "switch_action e =
     \<lparr>Player = player_of (fld e 1), ActionType = ''switch'', Move = None,
      SwitchTo = combatant_of (fld e 1), Outcome = []\<rparr>"

text \<open>
  Modelled from the spec: the switch event (section 4.2): updates the active combatant of the
  slot and its health, counts the switch and records the Switch action.
\<close>

definition handle_switch :: "ParseState \<Rightarrow> event \<Rightarrow> ParseState" where
  "handle_switch s e =
     record_action (switch_action e)
       (s\<lparr>switches := Suc (switches s),
          active := (active s)(slot_of (fld e 1) \<mapsto> combatant_of (fld e 1)),
          health := (case parse_health (fld e 3) of
                       None \<Rightarrow> health s
                     | Some h \<Rightarrow> (health s)(fld e 1 \<mapsto> h))\<rparr>)"

text \<open>Modelled from the spec: the Move action a move line records (sections 3, 4.2).\<close>

definition move_action :: "event \<Rightarrow> Action" where
  "move_action e =
     \<lparr>Player = player_of (fld e 1), ActionType = ''move'',
      Move = Some \<lparr>MoveID = move_id (fld e 2), MoveName = fld e 2\<rparr>,
      SwitchTo = [], Outcome = []\<rparr>"

text \<open>
  Modelled from the spec: the move event (section 4.2): records the Move action and updates
  the move-frequency count.
\<close>

definition handle_move :: "ParseState \<Rightarrow> event \<Rightarrow> ParseState" where
  "handle_move s e =
     record_action (move_action e) (s\<lparr>moveFreq := bump (moveFreq s) (move_id (fld e 2))\<rparr>)"

text \<open>Modelled from the spec: the super-effective modifier line (section 4.2).\<close>

definition handle_supereffective :: "ParseState \<Rightarrow> event \<Rightarrow> ParseState" where
  "handle_supereffective s e = note_outcome ''supereffective'' (s\<lparr>superEff := Suc (superEff s)\<rparr>)"

text \<open>Modelled from the spec: the resisted modifier line (section 4.2).\<close>

definition handle_resisted :: "ParseState \<Rightarrow> event \<Rightarrow> ParseState" where
  "handle_resisted s e = note_outcome ''resisted'' (s\<lparr>notVeryEff := Suc (notVeryEff s)\<rparr>)"

text \<open>Modelled from the spec: the critical-hit modifier line (section 4.2).\<close>

definition handle_crit :: "ParseState \<Rightarrow> event \<Rightarrow> ParseState" where
  "handle_crit s e = note_outcome ''crit'' (s\<lparr>crits := Suc (crits s)\<rparr>)"

text \<open>
  Modelled from the spec: the damage line (sections 4.2, 9): the delta against the combatant's
  most recent health is attributed to the player whose combatant's health changed.
\<close>

definition handle_damage :: "ParseState \<Rightarrow> event \<Rightarrow> ParseState" where
  "handle_damage s e =
     (case parse_health (fld e 2) of
        None \<Rightarrow> s
      | Some h \<Rightarrow>
          (let d = last_health s (fld e 1) - h;
               s' = s\<lparr>health := (health s)(fld e 1 \<mapsto> h)\<rparr>
           in note_outcome ''damage''
                (if d \<le> 0 then s' else credit_damage (player_of (fld e 1)) d s')))"

text \<open>Modelled from the spec: the heal line (section 4.2).\<close>

definition handle_heal :: "ParseState \<Rightarrow> event \<Rightarrow> ParseState" where
  "handle_heal s e =
     (case parse_health (fld e 2) of
        None \<Rightarrow> s
      | Some h \<Rightarrow>
          (let d = h - last_health s (fld e 1);
               s' = s\<lparr>health := (health s)(fld e 1 \<mapsto> h)\<rparr>
           in note_outcome ''heal''
                (if d \<le> 0 then s' else credit_heal (player_of (fld e 1)) d s')))"

text \<open>
  Modelled from the spec: the KO key moment of a faint event (sections 4.2, 4.4): significance
  high, tagged with the current turn number.
\<close>

definition ko_moment :: "nat \<Rightarrow> event \<Rightarrow> KeyMoment" where
  "ko_moment n e =
     \<lparr>MomentTurn = n, Type = ''KO'', Description = combatant_of (fld e 1) @ '' fainted'',
      Significance = ''high''\<rparr>"

text \<open>Modelled from the spec: the Faint action a faint line records (section 3).\<close>

definition faint_action :: "event \<Rightarrow> Action" where
  "faint_action e =
     \<lparr>Player = player_of (fld e 1), ActionType = ''faint'', Move = None, SwitchTo = [],
      Outcome = []\<rparr>"

text \<open>
  Modelled from the spec: incrementing the losing player's loss count (section 4.2); a
  designator that is neither player has no loss count.
\<close>

definition count_loss :: "string \<Rightarrow> ParseState \<Rightarrow> ParseState" where
  "count_loss p s =
     (if p = ''player1'' then s\<lparr>losses1 := Suc (losses1 s)\<rparr>
      else if p = ''player2'' then s\<lparr>losses2 := Suc (losses2 s)\<rparr>
      else s)"

text \<open>
  Modelled from the spec: the faint event (section 4.2): increments the losing player's loss
  count, emits the KO key moment and records the Faint action.
\<close>

definition handle_faint :: "ParseState \<Rightarrow> event \<Rightarrow> ParseState" where
  "handle_faint s e =
     record_action (faint_action e)
       (count_loss (player_of (fld e 1))
          (s\<lparr>moments := moments s @ [ko_moment (current_turn s) e],
             health := (health s)(fld e 1 \<mapsto> 0)\<rparr>))"

text \<open>
  Modelled from the spec: the Other-variant action of an unrecognized message type (section
  4.2).
\<close>

definition other_action :: "event \<Rightarrow> Action" where
  "other_action e =
     \<lparr>Player = player_of (fld e 1), ActionType = tag e, Move = None, SwitchTo = [],
      Outcome = []\<rparr>"

text \<open>
  Modelled from the spec: an unrecognized message type (section 4.2): recorded as an Other
  action inside an open turn, ignored otherwise.
\<close>

definition handle_other :: "ParseState \<Rightarrow> event \<Rightarrow> ParseState" where
  "handle_other s e =
     (case asm s of NoTurnOpen \<Rightarrow> s | TurnOpen n acts \<Rightarrow> record_action (other_action e) s)"

text \<open>
  Modelled from the spec: the win marker (section 4.2): records which player slot won; a name
  that matches neither player leaves the winner empty.
\<close>

definition handle_win :: "ParseState \<Rightarrow> event \<Rightarrow> ParseState" where
  "handle_win s e =
     s\<lparr>winner := (if fld e 1 = [] then []
                  else if fld e 1 = name1 s then ''player1''
                  else if fld e 1 = name2 s then ''player2'' else [])\<rparr>"

text \<open>
  Modelled from the spec: the Event Dispatcher (section 4.2): one handler per message-type
  tag; battle-start and upkeep markers are no-ops.
\<close>

definition dispatch :: "ParseState \<Rightarrow> event \<Rightarrow> ParseState" where
  "dispatch s e =
     (if tag e = ''player'' then handle_player s e
      else if tag e = ''j'' then handle_join s e
      else if tag e = ''tier'' then handle_tier s e
      else if tag e = ''start'' then s
      else if tag e = ''turn'' then handle_turn s e
      else if tag e = ''switch'' then handle_switch s e
      else if tag e = ''move'' then handle_move s e
      else if tag e = ''-supereffective'' then handle_supereffective s e
      else if tag e = ''-resisted'' then handle_resisted s e
      else if tag e = ''-crit'' then handle_crit s e
      else if tag e = ''-damage'' then handle_damage s e
      else if tag e = ''-heal'' then handle_heal s e
      else if tag e = ''faint'' then handle_faint s e
      else if tag e = ''upkeep'' then s
      else if tag e = ''win'' then handle_win s e
      else handle_other s e)"

text \<open>
  Modelled from the spec: dispatching the lines in order, with no look-ahead (section 4.2).
  Section 4.3: \<open>Terminal state is reached when input is exhausted or a win marker is
  processed\<close>; section 4.2: the win marker \<open>triggers final summary
  assembly\<close>. So no line after the win marker is dispatched.
\<close>

fun run :: "ParseState \<Rightarrow> event list \<Rightarrow> ParseState" where
  "run s [] = s"
| "run s (e # es) = (if tag e = ''win'' then dispatch s e else run (dispatch s e) es)"

subsection \<open>Summary assembler\<close>

text \<open>
  Modelled from the spec: a derived average (section 4.5): the total divided by the total turn
  count, with 0.0 substituted when the count is 0.
\<close>

definition average :: "real \<Rightarrow> nat \<Rightarrow> real" where
  "average t n = (if n = 0 then 0 else t / real n)"

text \<open>
  Modelled from the spec: the Summary Assembler (sections 4.3, 4.6): closes the open turn and
  combines the state into the BattleSummary, computing the two averages once from the final
  totals (those of both players together) and the total turn count.
\<close>

definition assemble :: "string \<Rightarrow> ParseState \<Rightarrow> BattleSummary" where
  "assemble ident s0 =
     (let s = close_turn s0 in
      \<lparr>ID = ident, Format = format s,
       Player1 = \<lparr>Name = name1 s, Losses = losses1 s\<rparr>,
       Player2 = \<lparr>Name = name2 s, Losses = losses2 s\<rparr>,
       Turns = closed s, Winner = winner s,
       Stats =
         \<lparr>TotalTurns = opened s, MoveFrequency = moveFreq s, SwitchCount = switches s,
          SuperEffective = superEff s, NotVeryEffective = notVeryEff s,
          CriticalHits = crits s, Player1Totals = totals1 s, Player2Totals = totals2 s,
          AvgDamagePerTurn =
            average (DamageDealt (totals1 s) + DamageDealt (totals2 s)) (opened s),
          AvgHealPerTurn =
            average (HealingDone (totals1 s) + HealingDone (totals2 s)) (opened s)\<rparr>,
       KeyMoments = moments s\<rparr>)"

text \<open>
  Modelled from the spec: the parse operation (section 6), named as the parser's tests call
  it; the parser itself (parser.go) is not among the sources. It takes the raw text and the
  state of the identifier supply and returns the summary (\<open>Inr\<close>, no error) and
  the next state of the supply.
\<close>

definition ParseShowdownLog :: "string \<Rightarrow> nat \<Rightarrow> (parse_error + BattleSummary) \<times> nat" where
  "ParseShowdownLog logContent g =
     (case new_id g of
        (ident, g') \<Rightarrow> (Inr (assemble ident (run init_state (tokenize logContent))), g'))"

subsection \<open>Reading the log as the spec words it\<close>

text \<open>The lines the dispatcher consumes: those before the first win marker.\<close>

definition dispatched :: "event list \<Rightarrow> event list" where
  "dispatched es = takeWhile (\<lambda>e. tag e \<noteq> ''win'') es"

text \<open>The turn number a line declares, if it is a turn-boundary marker carrying one.\<close>

definition declared :: "event \<Rightarrow> nat list" where
  "declared e =
     (if tag e = ''turn'' then (case parse_nat (fld e 1) of None \<Rightarrow> [] | Some n \<Rightarrow> [n])
      else [])"

text \<open>The numbers declared by the dispatched turn-boundary markers, in order.\<close>

definition declared_turns :: "event list \<Rightarrow> nat list" where
  "declared_turns es = concat (map declared (dispatched es))"



text \<open>The turns of a state: the closed ones, then the open one if any.\<close>

definition all_turns :: "ParseState \<Rightarrow> Turn list" where
  "all_turns s =
     closed s @ (case asm s of NoTurnOpen \<Rightarrow> []
                 | TurnOpen n acts \<Rightarrow> [\<lparr>TurnNumber = n, Actions = acts\<rparr>])"


text \<open>The line separator.\<close>

definition nl :: string where
  "nl = [CHR 0x0A]"

subsection \<open>Vocabulary of the proofs\<close>

text \<open>The turn numbers of a state.\<close>

definition numbers :: "ParseState \<Rightarrow> nat list" where
  "numbers s = map TurnNumber (all_turns s)"



text \<open>The Switch action recorded for a switch line, whatever outcome notes it has received since.\<close>

definition is_switch_of :: "event \<Rightarrow> Action \<Rightarrow> bool" where
  "is_switch_of e a =
     (ActionType a = ''switch'' \<and> Player a = player_of (fld e 1) \<and>
      SwitchTo a = combatant_of (fld e 1))"

text \<open>A list of actions holds the Switch action of a switch line.\<close>

definition carries :: "event \<Rightarrow> Action list \<Rightarrow> bool" where
  "carries e acts = list_ex (is_switch_of e) acts"

text \<open>Some turn numbered 1 holds the Switch action of a switch line.\<close>

definition in_turn1 :: "event \<Rightarrow> Turn list \<Rightarrow> bool" where
  "in_turn1 e ts = list_ex (\<lambda>t. TurnNumber t = 1 \<and> carries e (Actions t)) ts"

text \<open>Some turn is numbered 1.\<close>

definition has_turn1 :: "Turn list \<Rightarrow> bool" where
  "has_turn1 ts = list_ex (\<lambda>t. TurnNumber t = 1) ts"

text \<open>
  The invariant of a buffered switch: it waits in the pre-turn buffer until a turn numbered 1
  exists, and from then on a turn numbered 1 holds it.
\<close>

definition kept :: "event \<Rightarrow> ParseState \<Rightarrow> bool" where
  "kept e s = (if has_turn1 (all_turns s) then in_turn1 e (all_turns s)
               else carries e (preTurn s))"



subsection \<open>Concrete logs\<close>

text \<open>
  A short well-formed log: a join announcement, a player declaration, a switch before turn 1,
  one turn with a move, a knock-out, and the win marker.
\<close>

definition sampleLog :: string where
  "sampleLog =
     ''|j|'' @ star @ ''Alice'' @ nl @
     ''|player|p2|Bob'' @ nl @
     ''|switch|p1a: Pika|Pikachu, L50|100/100'' @ nl @
     ''|turn|1'' @ nl @
     ''|move|p1a: Pika|Tackle|p2a: Eevee'' @ nl @
     ''|-damage|p2a: Eevee|0 fnt'' @ nl @
     ''|faint|p2a: Eevee'' @ nl @
     ''|win|Alice''"

text \<open>The lines of the short log, tokenized.\<close>

definition sampleEvents :: "event list" where
  "sampleEvents =
     [[''j'', star @ ''Alice''], [''player'', ''p2'', ''Bob''],
      [''switch'', ''p1a: Pika'', ''Pikachu, L50'', ''100/100''], [''turn'', ''1''],
      [''move'', ''p1a: Pika'', ''Tackle'', ''p2a: Eevee''],
      [''-damage'', ''p2a: Eevee'', ''0 fnt''], [''faint'', ''p2a: Eevee''],
      [''win'', ''Alice'']]"






section \<open>Lemmas on the parser\<close>

lemmas handler_defs =
  handle_player_def handle_join_def handle_tier_def handle_turn_def handle_switch_def
  handle_move_def handle_supereffective_def handle_resisted_def handle_crit_def
  handle_damage_def handle_heal_def handle_faint_def handle_other_def handle_win_def

subsection \<open>Turn structure\<close>

lemma numbers_eqI:
  "closed s' = closed s \<Longrightarrow> (case asm s' of NoTurnOpen \<Rightarrow> [] | TurnOpen n acts \<Rightarrow> [n]) =
     (case asm s of NoTurnOpen \<Rightarrow> [] | TurnOpen n acts \<Rightarrow> [n]) \<Longrightarrow> numbers s' = numbers s"
  by (simp add: numbers_def all_turns_def split: assembler.splits)

lemma numbers_record_action [simp]: "numbers (record_action a s) = numbers s"
  by (rule numbers_eqI) (simp_all add: record_action_def split: assembler.splits)

lemma numbers_note_outcome [simp]: "numbers (note_outcome t s) = numbers s"
  by (rule numbers_eqI) (simp_all add: note_outcome_def split: assembler.splits)

lemma numbers_count_loss [simp]: "numbers (count_loss p s) = numbers s"
  by (rule numbers_eqI) (simp_all add: count_loss_def)

lemma numbers_credit_damage [simp]: "numbers (credit_damage p d s) = numbers s"
  by (rule numbers_eqI) (simp_all add: credit_damage_def)

lemma numbers_credit_heal [simp]: "numbers (credit_heal p d s) = numbers s"
  by (rule numbers_eqI) (simp_all add: credit_heal_def)

lemma numbers_open_close [simp]: "numbers (open_turn n (close_turn s)) = numbers s @ [n]"
  by (simp add: numbers_def all_turns_def open_turn_def close_turn_def split: assembler.splits)

lemma numbers_frame [simp]:
  "numbers (s\<lparr>format := a\<rparr>) = numbers s"
  "numbers (s\<lparr>name1 := a\<rparr>) = numbers s"
  "numbers (s\<lparr>name2 := a\<rparr>) = numbers s"
  "numbers (s\<lparr>winner := a\<rparr>) = numbers s"
  "numbers (s\<lparr>moveFreq := mf\<rparr>) = numbers s"
  "numbers (s\<lparr>switches := k\<rparr>) = numbers s"
  "numbers (s\<lparr>superEff := k\<rparr>) = numbers s"
  "numbers (s\<lparr>notVeryEff := k\<rparr>) = numbers s"
  "numbers (s\<lparr>crits := k\<rparr>) = numbers s"
  "numbers (s\<lparr>moments := ms\<rparr>) = numbers s"
  "numbers (s\<lparr>health := h\<rparr>) = numbers s"
  "numbers (s\<lparr>active := ac\<rparr>) = numbers s"
  by (simp_all add: numbers_def all_turns_def)

lemma numbers_handlers:
  "numbers (handle_player s e) = numbers s"
  "numbers (handle_join s e) = numbers s"
  "numbers (handle_tier s e) = numbers s"
  "numbers (handle_switch s e) = numbers s"
  "numbers (handle_move s e) = numbers s"
  "numbers (handle_supereffective s e) = numbers s"
  "numbers (handle_resisted s e) = numbers s"
  "numbers (handle_crit s e) = numbers s"
  "numbers (handle_damage s e) = numbers s"
  "numbers (handle_heal s e) = numbers s"
  "numbers (handle_faint s e) = numbers s"
  "numbers (handle_other s e) = numbers s"
  "numbers (handle_win s e) = numbers s"
  by (simp_all add: handler_defs Let_def split: option.splits assembler.splits)

lemma numbers_handle_turn:
  "numbers (handle_turn s e) =
     numbers s @ (case parse_nat (fld e 1) of None \<Rightarrow> [] | Some n \<Rightarrow> [n])"
  by (simp add: handle_turn_def split: option.splits)

lemma numbers_dispatch: "numbers (dispatch s e) = numbers s @ declared e"
  by (simp add: dispatch_def declared_def numbers_handlers numbers_handle_turn)

subsection \<open>The run stops at the win marker\<close>

lemma dispatch_win: "tag e = ''win'' \<Longrightarrow> dispatch s e = handle_win s e"
  by (simp add: dispatch_def)

lemma run_eq: "\<exists>w. run s es = (foldl dispatch s (dispatched es))\<lparr>winner := w\<rparr>"
proof (induction es arbitrary: s)
  case Nil
  have "run s [] = (foldl dispatch s (dispatched []))\<lparr>winner := winner s\<rparr>"
    by (simp add: dispatched_def)
  then show ?case by blast
next
  case (Cons e es)
  show ?case
  proof (cases "tag e = ''win''")
    case True
    then have "run s (e # es) = (foldl dispatch s (dispatched (e # es)))\<lparr>winner := winner (handle_win s e)\<rparr>"
      by (simp add: dispatched_def dispatch_win handle_win_def)
    then show ?thesis by blast
  next
    case False
    then have "run s (e # es) = run (dispatch s e) es"
      and "dispatched (e # es) = e # dispatched es"
      by (simp_all add: dispatched_def)
    then show ?thesis using Cons.IH [of "dispatch s e"] by simp
  qed
qed

lemma numbers_foldl: "numbers (foldl dispatch s es) = numbers s @ concat (map declared es)"
  by (induction es arbitrary: s) (simp_all add: numbers_dispatch)

lemma numbers_winner [simp]: "numbers (s\<lparr>winner := w\<rparr>) = numbers s"
  by (simp add: numbers_def all_turns_def)

lemma numbers_run: "numbers (run s es) = numbers s @ declared_turns es"
proof -
  obtain w where "run s es = (foldl dispatch s (dispatched es))\<lparr>winner := w\<rparr>"
    using run_eq by blast
  then show ?thesis by (simp add: numbers_foldl declared_turns_def)
qed

subsection \<open>The count of opened turns\<close>

lemma opened_helpers [simp]:
  "opened (record_action a s) = opened s"
  "opened (note_outcome t s) = opened s"
  "opened (count_loss p s) = opened s"
  "opened (credit_damage p d s) = opened s"
  "opened (credit_heal p d s) = opened s"
  "opened (close_turn s) = opened s"
  "opened (open_turn n s) = Suc (opened s)"
  by (simp_all add: record_action_def note_outcome_def count_loss_def credit_damage_def
      credit_heal_def close_turn_def open_turn_def split: assembler.splits)

lemma opened_handlers:
  "opened (handle_player s e) = opened s"
  "opened (handle_join s e) = opened s"
  "opened (handle_tier s e) = opened s"
  "opened (handle_switch s e) = opened s"
  "opened (handle_move s e) = opened s"
  "opened (handle_supereffective s e) = opened s"
  "opened (handle_resisted s e) = opened s"
  "opened (handle_crit s e) = opened s"
  "opened (handle_damage s e) = opened s"
  "opened (handle_heal s e) = opened s"
  "opened (handle_faint s e) = opened s"
  "opened (handle_other s e) = opened s"
  "opened (handle_win s e) = opened s"
  by (simp_all add: handler_defs Let_def split: option.splits assembler.splits)

lemma opened_handle_turn:
  "opened (handle_turn s e) =
     opened s + length (case parse_nat (fld e 1) of None \<Rightarrow> [] | Some n \<Rightarrow> [n])"
  by (simp add: handle_turn_def split: option.splits)

lemma opened_dispatch: "opened (dispatch s e) = opened s + length (declared e)"
  by (simp add: dispatch_def declared_def opened_handlers opened_handle_turn)

lemma opened_foldl: "opened (foldl dispatch s es) = opened s + length (concat (map declared es))"
  by (induction es arbitrary: s) (simp_all add: opened_dispatch)

lemma opened_run: "opened (run s es) = opened s + length (declared_turns es)"
proof -
  obtain w where "run s es = (foldl dispatch s (dispatched es))\<lparr>winner := w\<rparr>"
    using run_eq by blast
  then show ?thesis by (simp add: opened_foldl declared_turns_def)
qed

subsection \<open>The assembled summary\<close>

lemma Turns_assemble: "Turns (assemble i s) = all_turns s"
  by (simp add: assemble_def close_turn_def all_turns_def Let_def split: assembler.splits)

lemma TotalTurns_assemble: "TotalTurns (Stats (assemble i s)) = opened s"
  by (simp add: assemble_def Let_def)

lemma numbers_init: "numbers init_state = []"
  by (simp add: numbers_def all_turns_def init_state_def)

lemma opened_init: "opened init_state = 0"
  by (simp add: init_state_def)

lemma ParseShowdownLog_Inr:
  "ParseShowdownLog raw g = (Inr s, g') \<Longrightarrow>
     s = assemble (fst (new_id g)) (run init_state (tokenize raw)) \<and> g' = snd (new_id g)"
  by (auto simp: ParseShowdownLog_def split: prod.splits)

lemma ParseShowdownLog_eq:
  "ParseShowdownLog raw g =
     (Inr (assemble (fst (new_id g)) (run init_state (tokenize raw))), snd (new_id g))"
  by (simp add: ParseShowdownLog_def split: prod.splits)

lemma turn_numbers_run:
  "map TurnNumber (Turns (assemble i (run init_state es))) = declared_turns es"
  using numbers_run [of init_state es] by (simp add: Turns_assemble numbers_def numbers_init [unfolded numbers_def])

lemma turn_count:
  "TotalTurns (Stats (assemble i (run init_state es))) =
     length (Turns (assemble i (run init_state es)))"
proof -
  have "length (Turns (assemble i (run init_state es))) =
          length (map TurnNumber (Turns (assemble i (run init_state es))))"
    by simp
  also have "\<dots> = length (declared_turns es)"
    by (simp only: turn_numbers_run)
  finally show ?thesis
    by (simp add: TotalTurns_assemble opened_run opened_init)
qed

subsection \<open>Move frequency\<close>

lemma moveFreq_helpers [simp]:
  "moveFreq (record_action a s) = moveFreq s"
  "moveFreq (note_outcome t s) = moveFreq s"
  "moveFreq (count_loss p s) = moveFreq s"
  "moveFreq (credit_damage p d s) = moveFreq s"
  "moveFreq (credit_heal p d s) = moveFreq s"
  "moveFreq (close_turn s) = moveFreq s"
  "moveFreq (open_turn n s) = moveFreq s"
  by (simp_all add: record_action_def note_outcome_def count_loss_def credit_damage_def
      credit_heal_def close_turn_def open_turn_def split: assembler.splits)







subsection \<open>Faints: losses and key moments\<close>

lemma current_turn_helpers [simp]:
  "current_turn (record_action a s) = current_turn s"
  "current_turn (note_outcome t s) = current_turn s"
  "current_turn (count_loss p s) = current_turn s"
  "current_turn (credit_damage p d s) = current_turn s"
  "current_turn (credit_heal p d s) = current_turn s"
  "current_turn (open_turn n s) = n"
  by (simp_all add: current_turn_def record_action_def note_outcome_def count_loss_def
      credit_damage_def credit_heal_def open_turn_def split: assembler.splits)





lemma moments_helpers [simp]:
  "moments (record_action a s) = moments s"
  "moments (note_outcome t s) = moments s"
  "moments (count_loss p s) = moments s"
  "moments (credit_damage p d s) = moments s"
  "moments (credit_heal p d s) = moments s"
  "moments (close_turn s) = moments s"
  "moments (open_turn n s) = moments s"
  by (simp_all add: record_action_def note_outcome_def count_loss_def credit_damage_def
      credit_heal_def close_turn_def open_turn_def split: assembler.splits)




lemma losses_helpers [simp]:
  "losses1 (record_action a s) = losses1 s"
  "losses2 (record_action a s) = losses2 s"
  "losses1 (note_outcome t s) = losses1 s"
  "losses2 (note_outcome t s) = losses2 s"
  "losses1 (credit_damage p d s) = losses1 s"
  "losses2 (credit_damage p d s) = losses2 s"
  "losses1 (credit_heal p d s) = losses1 s"
  "losses2 (credit_heal p d s) = losses2 s"
  "losses1 (close_turn s) = losses1 s"
  "losses2 (close_turn s) = losses2 s"
  "losses1 (open_turn n s) = losses1 s"
  "losses2 (open_turn n s) = losses2 s"
  by (simp_all add: record_action_def note_outcome_def credit_damage_def
      credit_heal_def close_turn_def open_turn_def split: assembler.splits)









subsection \<open>Player names\<close>

lemma names_helpers [simp]:
  "name1 (record_action a s) = name1 s" "name2 (record_action a s) = name2 s"
  "name1 (note_outcome t s) = name1 s" "name2 (note_outcome t s) = name2 s"
  "name1 (count_loss p s) = name1 s" "name2 (count_loss p s) = name2 s"
  "name1 (credit_damage p d s) = name1 s" "name2 (credit_damage p d s) = name2 s"
  "name1 (credit_heal p d s) = name1 s" "name2 (credit_heal p d s) = name2 s"
  "name1 (close_turn s) = name1 s" "name2 (close_turn s) = name2 s"
  "name1 (open_turn n s) = name1 s" "name2 (open_turn n s) = name2 s"
  by (simp_all add: record_action_def note_outcome_def count_loss_def credit_damage_def
      credit_heal_def close_turn_def open_turn_def split: assembler.splits)

















subsection \<open>The pre-turn buffer\<close>

lemma kept_cong:
  "all_turns s' = all_turns s \<Longrightarrow> preTurn s' = preTurn s \<Longrightarrow> kept e s' = kept e s"
  by (simp add: kept_def)






lemma kept_frame [simp]:
  "kept e (s\<lparr>format := a\<rparr>) = kept e s"
  "kept e (s\<lparr>name1 := a\<rparr>) = kept e s"
  "kept e (s\<lparr>name2 := a\<rparr>) = kept e s"
  "kept e (s\<lparr>winner := a\<rparr>) = kept e s"
  "kept e (s\<lparr>moveFreq := mf\<rparr>) = kept e s"
  "kept e (s\<lparr>switches := k\<rparr>) = kept e s"
  "kept e (s\<lparr>superEff := k\<rparr>) = kept e s"
  "kept e (s\<lparr>notVeryEff := k\<rparr>) = kept e s"
  "kept e (s\<lparr>crits := k\<rparr>) = kept e s"
  "kept e (s\<lparr>moments := ms\<rparr>) = kept e s"
  "kept e (s\<lparr>health := hm\<rparr>) = kept e s"
  "kept e (s\<lparr>active := ac\<rparr>) = kept e s"
  "kept e (count_loss p s) = kept e s"
  "kept e (credit_damage p d s) = kept e s"
  "kept e (credit_heal p d s) = kept e s"
  by (rule kept_cong; simp add: all_turns_def count_loss_def credit_damage_def credit_heal_def)+







subsection \<open>Structureless input, identifiers, averages\<close>





lemma assemble_ID: "assemble i st = (assemble j st)\<lparr>ID := i\<rparr>"
  by (simp add: assemble_def Let_def)

lemma sample_tokens: "tokenize sampleLog = sampleEvents"
  by code_simp

section \<open>Results for the parser\<close>



text \<open>
  C2. For every input, the total turn count of the returned statistics equals the number
  of turns of the returned summary.
\<close>

theorem total_turns_is_length:
  "ParseShowdownLog raw g = (Inr s, g') \<Longrightarrow> TotalTurns (Stats s) = length (Turns s)"
  using ParseShowdownLog_Inr [of raw g s g'] turn_count by simp

text \<open>A concrete run of the result above.\<close>

theorem total_turns_is_length_witness:
  "\<exists>s g'. ParseShowdownLog sampleLog 0 = (Inr s, g') \<and>
     TotalTurns (Stats s) = length (Turns s) \<and> length (Turns s) = 1"
proof -
  obtain s g' where p: "ParseShowdownLog sampleLog 0 = (Inr s, g')"
    by (simp add: ParseShowdownLog_eq)
  have "length (Turns (assemble (fst (new_id 0)) (run init_state (tokenize sampleLog)))) = 1"
    by code_simp
  then have "length (Turns s) = 1"
    using ParseShowdownLog_Inr [OF p] by simp
  then show ?thesis
    using p total_turns_is_length [OF p] by blast
qed


















section \<open>Results for the TCG Live handler\<close>

text \<open>
  C10. For every request body and every behaviour of the JSON decoder: when the body does
  not decode or decodes with an empty \<open>gameExport\<close>, the handler answers 400 with the one
  error value of code \<open>INVALID_REQUEST\<close>; in every other case it answers 501 with the one
  error value of code \<open>NOT_IMPLEMENTED\<close>. The body never holds a success payload.
\<close>

theorem handleAnalyzeTCGLive_responses:
  "(invalid_request decode b \<longrightarrow>
      statusCode (handleAnalyzeTCGLive decode b) = 400 \<and>
      map error_code (body (handleAnalyzeTCGLive decode b)) = [Some ''INVALID_REQUEST'']) \<and>
   (\<not> invalid_request decode b \<longrightarrow>
      statusCode (handleAnalyzeTCGLive decode b) = 501 \<and>
      map error_code (body (handleAnalyzeTCGLive decode b)) = [Some ''NOT_IMPLEMENTED'']) \<and>
   list_all (\<lambda>p. error_code p \<noteq> None) (body (handleAnalyzeTCGLive decode b))"
proof (cases "decode b")
  case (Inl err)
  then show ?thesis
    by (simp add: handleAnalyzeTCGLive_def invalid_request_def StatusBadRequest_def)
next
  case (Inr req)
  then show ?thesis
    by (simp add: handleAnalyzeTCGLive_def invalid_request_def StatusBadRequest_def
        StatusNotImplemented_def Let_def)
qed

theorem handleAnalyzeTCGLive_responses_witness:
  "invalid_request sample_decode ''{'' \<and>
   statusCode (handleAnalyzeTCGLive sample_decode ''{'') = 400 \<and>
   invalid_request sample_decode '''' \<and>
   map error_code (body (handleAnalyzeTCGLive sample_decode '''')) = [Some ''INVALID_REQUEST''] \<and>
   \<not> invalid_request sample_decode ''deck'' \<and>
   statusCode (handleAnalyzeTCGLive sample_decode ''deck'') = 501 \<and>
   map error_code (body (handleAnalyzeTCGLive sample_decode ''deck'')) = [Some ''NOT_IMPLEMENTED'']"
proof -
  have a: "invalid_request sample_decode ''{''"
    by (simp add: invalid_request_def sample_decode_def)
  have b: "invalid_request sample_decode ''''"
    by (simp add: invalid_request_def sample_decode_def)
  have c: "\<not> invalid_request sample_decode ''deck''"
    by (simp add: invalid_request_def sample_decode_def)
  show ?thesis
    using a b c
      handleAnalyzeTCGLive_responses [of sample_decode "''{''"]
      handleAnalyzeTCGLive_responses [of sample_decode "''''"]
      handleAnalyzeTCGLive_responses [of sample_decode "''deck''"]
    by blast
qed

end
